theory Spec2Isabelle
  imports Main
begin

section \<open>Data model of the rotor message handler\<close>

text \<open>
  The embedding follows \<^verbatim>\<open>src/services/rotor/src/index.ts\<close>. Opaque JSON values
  (event bodies, headers, credentials) are kept as text. A thrown JavaScript error is a
  value of type \<open>error\<close>, identified by its message; every function that can throw
  returns \<open>error + 'a\<close> with \<open>Inl\<close> for the throw.
\<close>

type_synonym json = string

datatype error = Error (message: string)

record bulker_options =
  bulkerEndpoint :: string
  destinationId :: string
  authToken :: string
  dataLayout :: string

datatype function_options = Undefined | BulkerOptions bulker_options | Opaque json

record function_ref =
  functionId :: string
  functionOptions :: function_options

record connection_options =
  opt_functions :: "function_ref list option"
  opt_dataLayout :: "string option"
  opt_other :: json

record EnrichedConnectionConfig =
  conn_id :: string
  workspaceId :: string
  streamId :: string
  conn_destinationId :: string
  conn_type :: string
  updatedAt :: string
  credentialsHash :: string
  conn_mode :: string
  conn_options :: connection_options
  usesBulker :: bool
  credentials :: json

record function_config =
  fn_workspaceId :: string
  fn_name :: string
  fn_code :: string

record IngestMessage =
  connectionId :: string
  messageId :: string
  msg_type :: string
  httpPayload :: json
  httpHeaders :: json
  msg_geo :: json
  origin_domain :: "string option"

record ctx_source =
  src_id :: string
  src_domain :: "string option"

record ctx_destination =
  dst_id :: string
  dst_type :: string
  dst_updatedAt :: string
  dst_hash :: string

record ctx_connection =
  cn_id :: string
  cn_mode :: string
  cn_options :: connection_options

record EventContext =
  headers :: json
  geo :: json
  retries :: int
  source :: ctx_source
  destination :: ctx_destination
  connection :: ctx_connection

record SystemContext =
  anonymousEventsStore :: string

text \<open>
  The context a step's \<open>exec\<close> receives: the event context, the step's own context
  (the system context \<^verbatim>\<open>$system\<close> for builtin steps, nothing for user functions), its
  configuration and the handles of the store, the logger and fetch.
\<close>

record FullContext = EventContext +
  dollar_system :: "SystemContext option"
  props :: function_options
  ctx_store :: string
  ctx_log :: string

text \<open>A compiled user function: the handle of its isolate and the hash of its code.\<close>

record cached_udf =
  wrapper :: nat
  hash :: string

section \<open>State and effects\<close>

datatype cache_name = ConnectionsCache | FunctionsCache | UdfCache

text \<open>
  Every call that leaves the handler or touches a cache is recorded in a trace, oldest
  first, so that "no lookup", "one compile" or "no close" are statements about the trace.
\<close>

datatype effect =
    JsonParse string
  | CacheGet cache_name string
  | CacheSet cache_name string
  | CacheTtl cache_name string
  | GetEnrichedConnection string
  | GetConfig string string
  | Compile string string string nat
  | Close nat
  | UserFunction nat json
  | RunChain "string list"
  | LogMetrics string string

text \<open>
  A cache entry is the stored value (\<open>None\<close> for a stored \<^verbatim>\<open>undefined\<close>) and its
  expiry time in milliseconds, \<open>0\<close> meaning that it never expires.
\<close>

type_synonym 'v node_cache = "string \<rightharpoonup> ('v option \<times> nat)"

record state =
  now :: nat
  connectionsCache_data :: "EnrichedConnectionConfig node_cache"
  functionsCache_data :: "function_config node_cache"
  udfCache_data :: "cached_udf node_cache"
  next_wrapper :: nat
  trace :: "effect list"

definition emit :: "effect \<Rightarrow> state \<Rightarrow> state" where
  "emit e st = st\<lparr>trace := trace st @ [e]\<rparr>"

text \<open>
  A cache object of the program: its name, its standard time to live in seconds, where
  its entries live in the state, and the listener of its \<^verbatim>\<open>del\<close> event.
\<close>

record 'v cache_ref =
  cache_id :: cache_name
  stdTTL :: nat
  rd :: "state \<Rightarrow> 'v node_cache"
  wr :: "'v node_cache \<Rightarrow> state \<Rightarrow> state"
  del_listener :: "string \<Rightarrow> 'v option \<Rightarrow> state \<Rightarrow> state"

definition udfTTL :: nat where
  "udfTTL = 60 * 10"

definition connectionsCache :: "EnrichedConnectionConfig cache_ref" where
  "connectionsCache =
     \<lparr>cache_id = ConnectionsCache, stdTTL = 20, rd = connectionsCache_data,
      wr = (\<lambda>d st. st\<lparr>connectionsCache_data := d\<rparr>),
      del_listener = (\<lambda>key v st. st)\<rparr>"

definition functionsCache :: "function_config cache_ref" where
  "functionsCache =
     \<lparr>cache_id = FunctionsCache, stdTTL = 20, rd = functionsCache_data,
      wr = (\<lambda>d st. st\<lparr>functionsCache_data := d\<rparr>),
      del_listener = (\<lambda>key v st. st)\<rparr>"

text \<open>
  The listener registered on the cache of compiled user functions closes the wrapper of
  the deleted entry (\<^verbatim>\<open>value.wrapper?.close()\<close>).
\<close>

definition udfCache :: "cached_udf cache_ref" where
  "udfCache =
     \<lparr>cache_id = UdfCache, stdTTL = udfTTL, rd = udfCache_data,
      wr = (\<lambda>d st. st\<lparr>udfCache_data := d\<rparr>),
      del_listener =
        (\<lambda>key v st. case v of None \<Rightarrow> st | Some c \<Rightarrow> emit (Close (wrapper c)) st)\<rparr>"

subsection \<open>The TTL cache\<close>

text \<open>
  Modelled from the spec: the cache class (the \<^verbatim>\<open>node-cache\<close> package) is not part of
  the sources. Section 4.1 of the specification describes it: a mapping from string keys
  to entries with an expiry time, with \<open>get\<close>, \<open>touch\<close> (here \<open>cache_ttl\<close>), \<open>set\<close> and
  \<open>delete\<close>; the release hook runs for an entry that is deleted or found expired, and
  \<open>set\<close> stores the new entry over the old one and signals no deletion.
\<close>

definition expired :: "nat \<Rightarrow> nat \<Rightarrow> bool" where
  \<comment> \<open>Modelled from the spec: an entry with expiry time \<open>t\<close> is expired at time \<open>n\<close>.\<close>
  "expired t n = (t \<noteq> 0 \<and> t < n)"

definition wrap_ttl :: "nat \<Rightarrow> nat \<Rightarrow> nat" where
  \<comment> \<open>Modelled from the spec: the expiry time of an entry written at \<open>n\<close> with \<open>ttl\<close> seconds.\<close>
  "wrap_ttl n ttl = (if ttl = 0 then 0 else n + ttl * 1000)"

definition cache_del :: "'v cache_ref \<Rightarrow> string \<Rightarrow> state \<Rightarrow> state" where
  \<comment> \<open>Modelled from the spec: delete an entry and run the release hook on its value.\<close>
  "cache_del c key st =
     (case rd c st key of
        None \<Rightarrow> st
      | Some (v, t) \<Rightarrow> del_listener c key v (wr c ((rd c st)(key := None)) st))"

definition cache_get :: "'v cache_ref \<Rightarrow> string \<Rightarrow> state \<Rightarrow> 'v option \<times> state" where
  \<comment> \<open>Modelled from the spec: the value of a live entry; an expired entry is deleted.\<close>
  "cache_get c key st =
     (let st1 = emit (CacheGet (cache_id c) key) st in
      case rd c st1 key of
        None \<Rightarrow> (None, st1)
      | Some (v, t) \<Rightarrow>
          if expired t (now st1) then (None, cache_del c key st1) else (v, st1))"

definition cache_set :: "'v cache_ref \<Rightarrow> string \<Rightarrow> 'v option \<Rightarrow> state \<Rightarrow> state" where
  \<comment> \<open>Modelled from the spec: store a value with the standard time to live.\<close>
  "cache_set c key v st =
     (let st1 = emit (CacheSet (cache_id c) key) st in
      wr c ((rd c st1)(key \<mapsto> (v, wrap_ttl (now st1) (stdTTL c)))) st1)"

definition cache_ttl :: "'v cache_ref \<Rightarrow> string \<Rightarrow> nat \<Rightarrow> state \<Rightarrow> state" where
  \<comment> \<open>Modelled from the spec: extend the expiry time of a live entry.\<close>
  "cache_ttl c key ttl st =
     (let st1 = emit (CacheTtl (cache_id c) key) st in
      case rd c st1 key of
        None \<Rightarrow> st1
      | Some (v, t) \<Rightarrow>
          if expired t (now st1) then cache_del c key st1
          else wr c ((rd c st1)(key \<mapsto> (v, wrap_ttl (now st1) (if ttl = 0 then stdTTL c else ttl)))) st1)"

subsection \<open>Read-through lookup\<close>

text \<open>
  \<^verbatim>\<open>getCachedOrLoad\<close>: a truthy cached value is returned; otherwise the loader runs,
  whatever it returns is stored, and returned. The values cached by this program are
  objects, so the only falsy value is the absent one.
\<close>

definition getCachedOrLoad ::
  "'v cache_ref \<Rightarrow> string \<Rightarrow> (string \<Rightarrow> state \<Rightarrow> (error + 'v option) \<times> state) \<Rightarrow> state
     \<Rightarrow> (error + 'v option) \<times> state" where
  "getCachedOrLoad cache key loader st =
     (case cache_get cache key st of
        (Some cached, st1) \<Rightarrow> (Inr (Some cached), st1)
      | (None, st1) \<Rightarrow>
          (case loader key st1 of
             (Inl e, st2) \<Rightarrow> (Inl e, st2)
           | (Inr loaded, st2) \<Rightarrow> (Inr loaded, cache_set cache key loaded st2)))"

definition requireDefined :: "'a option \<Rightarrow> string \<Rightarrow> error + 'a" where
  "requireDefined v msg = (case v of None \<Rightarrow> Inl (Error msg) | Some x \<Rightarrow> Inr x)"

section \<open>Function chains\<close>

text \<open>
  A step of a chain is \<^verbatim>\<open>{id, config, exec, context}\<close>. The three closures the
  handler creates for \<open>exec\<close> are data: the closure over a compiled user function (with
  the variables it captures, among them the reassignable \<^verbatim>\<open>cached\<close>), a builtin taken
  from the registry, and \<^verbatim>\<open>udfPipelineFunc\<close> with the chain of user functions it
  captures.
\<close>

datatype JitsuFunction = JitsuFunction string

record udf_closure =
  uc_functionId :: string
  uc_name :: string
  uc_code :: string
  uc_codeHash :: string
  uc_cached :: cached_udf

datatype 'e func =
  Func (func_id: string) (config: function_options) (exec: 'e) (func_context: "SystemContext option")

datatype exec_closure =
    UdfExec udf_closure
  | BuiltinExec JitsuFunction
  | UdfPipelineFunc "exec_closure func list"

record FuncChainResult =
  events :: "json list"
  execLog :: json

text \<open>
  The collaborators that are not part of the sources are parameters of the model: the
  JSON decoder, the configuration store, the registry of builtins, the hash of a code
  text, the behaviour of a wrapper when it is invoked (which may depend on everything
  that happened before), the startup environment, and the chain executor with its error
  check (\<^verbatim>\<open>./lib/functions-chain\<close>).
\<close>

record env =
  JSON_parse :: "string \<Rightarrow> error + IngestMessage"
  getEnrichedConnection :: "string \<Rightarrow> error + EnrichedConnectionConfig option"
  getConfig :: "string \<Rightarrow> string \<Rightarrow> error + function_config option"
  getBuiltinFunction :: "string \<Rightarrow> JitsuFunction option"
  object_hash :: "string \<Rightarrow> string"
  userFunction :: "nat \<Rightarrow> json \<Rightarrow> FullContext \<Rightarrow> state \<Rightarrow> error + json"
  bulkerBase :: string
  bulkerAuthKey :: string
  mongoAnonymousEventsStore :: string
  runChain ::
    "exec_closure func list \<Rightarrow> json \<Rightarrow> EnrichedConnectionConfig \<Rightarrow> string \<Rightarrow> EventContext
       \<Rightarrow> state \<Rightarrow> FuncChainResult \<times> state"
  checkError :: "FuncChainResult \<Rightarrow> error option"

fun startsWith :: "string \<Rightarrow> string \<Rightarrow> bool" where
  "startsWith s [] = True"
| "startsWith [] (c # p) = False"
| "startsWith (x # s) (c # p) = (x = c \<and> startsWith s p)"

subsection \<open>Compiling and invoking a user function\<close>

definition UDFWrapper :: "string \<Rightarrow> string \<Rightarrow> string \<Rightarrow> state \<Rightarrow> nat \<times> state" where
  \<comment> \<open>Modelled from the spec: the UDF compiler (section 6) is not part of the sources;
      \<open>compile(id, name, code)\<close> gives a wrapper, here a handle never given before.\<close>
  "UDFWrapper fid name code st =
     (next_wrapper st,
      emit (Compile fid name code (next_wrapper st)) (st\<lparr>next_wrapper := Suc (next_wrapper st)\<rparr>))"

definition invoke ::
  "env \<Rightarrow> nat \<Rightarrow> json \<Rightarrow> FullContext \<Rightarrow> state \<Rightarrow> (error + json) \<times> state" where
  "invoke env w event ctx st = (userFunction env w event ctx st, emit (UserFunction w event) st)"

text \<open>
  The \<open>exec\<close> closure of a user function (lines 188 to 201). It returns the closure as
  well, since the retry path assigns the captured variable \<^verbatim>\<open>cached\<close>.
\<close>

definition exec_udf ::
  "env \<Rightarrow> udf_closure \<Rightarrow> json \<Rightarrow> FullContext \<Rightarrow> state
     \<Rightarrow> (error + json) \<times> udf_closure \<times> state" where
  "exec_udf env clo event ctx st =
     (case invoke env (wrapper (uc_cached clo)) event ctx st of
        (Inr r, st1) \<Rightarrow> (Inr r, clo, st1)
      | (Inl e, st1) \<Rightarrow>
          if message e = ''Isolate is disposed'' then
            (case UDFWrapper (uc_functionId clo) (uc_name clo) (uc_code clo) st1 of
               (w, st2) \<Rightarrow>
                 let cached = \<lparr>wrapper = w, hash = uc_codeHash clo\<rparr>;
                     st3 = cache_set udfCache (uc_functionId clo) (Some cached) st2
                 in (case invoke env w event ctx st3 of
                       (r, st4) \<Rightarrow> (r, clo\<lparr>uc_cached := cached\<rparr>, st4)))
          else (Inl e, clo, st1))"

subsection \<open>Resolving the user functions of a connection\<close>

text \<open>
  Lines 174 to 184: the compiled function for \<open>fid\<close>, from the cache when the stored
  hash is the hash of the current code, compiled anew and stored otherwise; the time to
  live of the entry is extended in both cases. The specification calls this \<open>acquire\<close>.
\<close>

definition acquire ::
  "env \<Rightarrow> string \<Rightarrow> string \<Rightarrow> string \<Rightarrow> state \<Rightarrow> (error + cached_udf) \<times> state" where
  "acquire env fid name code st =
     (let codeHash = object_hash env code in
      case getCachedOrLoad udfCache fid
             (\<lambda>key s. case UDFWrapper key name code s of
                         (w, s') \<Rightarrow> (Inr (Some \<lparr>wrapper = w, hash = codeHash\<rparr>), s')) st of
        (Inl e, st1) \<Rightarrow> (Inl e, st1)
      | (Inr None, st1) \<Rightarrow> (Inl (Error ''Cannot read properties of undefined''), st1)
      | (Inr (Some cached), st1) \<Rightarrow>
          if hash cached \<noteq> codeHash then
            (case UDFWrapper fid name code st1 of
               (w, st2) \<Rightarrow>
                 let cached' = \<lparr>wrapper = w, hash = codeHash\<rparr>;
                     st3 = cache_set udfCache fid (Some cached') st2
                 in (Inr cached', cache_ttl udfCache fid udfTTL st3))
          else (Inr cached, cache_ttl udfCache fid udfTTL st1))"

definition loadFunction :: "env \<Rightarrow> string \<Rightarrow> state \<Rightarrow> (error + function_config option) \<times> state" where
  "loadFunction env key st = (getConfig env ''function'' key, emit (GetConfig ''function'' key) st)"

text \<open>The callback mapped over the references to user functions (lines 161 to 204).\<close>

definition udfFunc ::
  "env \<Rightarrow> EnrichedConnectionConfig \<Rightarrow> function_ref \<Rightarrow> state
     \<Rightarrow> (error + exec_closure func) \<times> state" where
  "udfFunc env conn f st =
     (let fid = drop 4 (functionId f) in
      case getCachedOrLoad functionsCache fid (loadFunction env) st of
        (Inl e, st1) \<Rightarrow> (Inl e, st1)
      | (Inr r, st1) \<Rightarrow>
          (case requireDefined r (''Unknown function: '' @ fid) of
             Inl e \<Rightarrow> (Inl e, st1)
           | Inr userFunctionObj \<Rightarrow>
               if fn_workspaceId userFunctionObj \<noteq> workspaceId conn then
                 (Inl (Error (''Function '' @ fid @ '' is not in the same workspace as connection ''
                        @ conn_id conn @ '' ('' @ workspaceId conn @ '')'')), st1)
               else
                 (case acquire env fid (fn_name userFunctionObj) (fn_code userFunctionObj) st1 of
                    (Inl e, st2) \<Rightarrow> (Inl e, st2)
                  | (Inr cached, st2) \<Rightarrow>
                      (Inr (Func (functionId f) (functionOptions f)
                              (UdfExec \<lparr>uc_functionId = fid, uc_name = fn_name userFunctionObj,
                                        uc_code = fn_code userFunctionObj,
                                        uc_codeHash = object_hash env (fn_code userFunctionObj),
                                        uc_cached = cached\<rparr>)
                              None), st2))))"

text \<open>
  \<^verbatim>\<open>Promise.all(list.map(async f => ...))\<close>: the callbacks are run one after the other
  in the order of the list, and the first error is the error of the whole.
\<close>

fun promise_all_map ::
  "('a \<Rightarrow> state \<Rightarrow> (error + 'b) \<times> state) \<Rightarrow> 'a list \<Rightarrow> state \<Rightarrow> (error + 'b list) \<times> state" where
  "promise_all_map g [] st = (Inr [], st)"
| "promise_all_map g (x # xs) st =
     (case g x st of
        (Inl e, st1) \<Rightarrow> (Inl e, st1)
      | (Inr y, st1) \<Rightarrow>
          (case promise_all_map g xs st1 of
             (Inl e, st2) \<Rightarrow> (Inl e, st2)
           | (Inr ys, st2) \<Rightarrow> (Inr (y # ys), st2)))"

subsection \<open>Building the chain\<close>

text \<open>The terminal destination step (lines 125 to 148).\<close>

definition mainFunction ::
  "env \<Rightarrow> IngestMessage \<Rightarrow> EnrichedConnectionConfig \<Rightarrow> error + function_ref" where
  "mainFunction env msg conn =
     (if usesBulker conn then
        Inr \<lparr>functionId = ''builtin.destination.bulker'',
             functionOptions = BulkerOptions
               \<lparr>bulkerEndpoint = bulkerBase env,
                destinationId = connectionId msg,
                authToken = bulkerAuthKey env,
                dataLayout = (case opt_dataLayout (conn_options conn) of
                                None \<Rightarrow> ''segment-single-table''
                              | Some d \<Rightarrow> d)\<rparr>\<rparr>
      else
        (case getBuiltinFunction env (''builtin.destination.'' @ conn_type conn) of
           Some builtin \<Rightarrow>
             Inr \<lparr>functionId = ''builtin.destination.'' @ conn_type conn,
                  functionOptions = Opaque (credentials conn)\<rparr>
         | None \<Rightarrow>
             Inl (Error (''Connection with id '' @ conn_id conn
                    @ '' has no functions assigned to it's destination type - ''
                    @ conn_type conn))))"

definition passes :: "(string \<Rightarrow> bool) option \<Rightarrow> function_ref \<Rightarrow> bool" where
  "passes functionsFilter f =
     (case functionsFilter of None \<Rightarrow> True | Some p \<Rightarrow> p (functionId f))"

text \<open>The declared references, \<^verbatim>\<open>connectionData.functions || []\<close>.\<close>

definition declared :: "EnrichedConnectionConfig \<Rightarrow> function_ref list" where
  "declared conn = (case opt_functions (conn_options conn) of None \<Rightarrow> [] | Some fs \<Rightarrow> fs)"

text \<open>The list \<^verbatim>\<open>functions\<close> of lines 149 to 151.\<close>

definition functionsList ::
  "(string \<Rightarrow> bool) option \<Rightarrow> EnrichedConnectionConfig \<Rightarrow> function_ref \<Rightarrow> function_ref list" where
  "functionsList functionsFilter conn mainFn =
     filter (passes functionsFilter) (declared conn @ [mainFn])"

definition udfFuncChain ::
  "env \<Rightarrow> EnrichedConnectionConfig \<Rightarrow> function_ref list \<Rightarrow> state
     \<Rightarrow> (error + exec_closure func list) \<times> state" where
  "udfFuncChain env conn fs st =
     promise_all_map (udfFunc env conn) (filter (\<lambda>f. startsWith (functionId f) ''udf.'') fs) st"

definition aggregatedFunctions ::
  "function_ref list \<Rightarrow> exec_closure func list \<Rightarrow> function_ref list" where
  "aggregatedFunctions fs udfChain =
     filter (\<lambda>f. startsWith (functionId f) ''builtin.transformation.'') fs
     @ (if length udfChain > 0 then [\<lparr>functionId = ''udf.PIPELINE'', functionOptions = Undefined\<rparr>]
        else [])
     @ filter (\<lambda>f. startsWith (functionId f) ''builtin.destination.'') fs"

text \<open>The callback mapped over the aggregated list (lines 228 to 246).\<close>

definition funcChainStep ::
  "env \<Rightarrow> SystemContext \<Rightarrow> exec_closure func list \<Rightarrow> function_ref \<Rightarrow> error + exec_closure func" where
  "funcChainStep env systemContext udfChain f =
     (if startsWith (functionId f) ''builtin.'' then
        (case requireDefined (getBuiltinFunction env (functionId f))
                (''Unknown function '' @ functionId f) of
           Inl e \<Rightarrow> Inl e
         | Inr b \<Rightarrow> Inr (Func (functionId f) (functionOptions f) (BuiltinExec b) (Some systemContext)))
      else if functionId f = ''udf.PIPELINE'' then
        Inr (Func (functionId f) (Opaque ''{}'') (UdfPipelineFunc udfChain) (Some systemContext))
      else Inl (Error (''Function of unknown type: '' @ functionId f)))"

definition funcChain ::
  "env \<Rightarrow> (string \<Rightarrow> bool) option \<Rightarrow> SystemContext \<Rightarrow> exec_closure func list
     \<Rightarrow> function_ref list \<Rightarrow> state \<Rightarrow> (error + exec_closure func list) \<times> state" where
  "funcChain env functionsFilter systemContext udfChain aggregated st =
     promise_all_map (\<lambda>f s. (funcChainStep env systemContext udfChain f, s))
       (filter (passes functionsFilter) aggregated) st"


definition store_of :: "EnrichedConnectionConfig \<Rightarrow> string" where
  "store_of conn = ''store:'' @ conn_id conn"


text \<open>The local variables of the handler once the chain is built (lines 123 to 247).\<close>

record chain_parts =
  cp_mainFunction :: function_ref
  cp_functions :: "function_ref list"
  cp_udfFuncChain :: "exec_closure func list"
  cp_aggregatedFunctions :: "function_ref list"
  cp_funcChain :: "exec_closure func list"

definition buildChain ::
  "env \<Rightarrow> IngestMessage \<Rightarrow> EnrichedConnectionConfig \<Rightarrow> (string \<Rightarrow> bool) option \<Rightarrow> state
     \<Rightarrow> (error + chain_parts) \<times> state" where
  "buildChain env msg conn functionsFilter st =
     (case mainFunction env msg conn of
        Inl e \<Rightarrow> (Inl e, st)
      | Inr mainFn \<Rightarrow>
          (let fs = functionsList functionsFilter conn mainFn;
               systemContext = \<lparr>anonymousEventsStore = mongoAnonymousEventsStore env\<rparr>
           in case udfFuncChain env conn fs st of
                (Inl e, st1) \<Rightarrow> (Inl e, st1)
              | (Inr udfChain, st1) \<Rightarrow>
                  (let aggregated = aggregatedFunctions fs udfChain
                   in case funcChain env functionsFilter systemContext udfChain aggregated st1 of
                        (Inl e, st2) \<Rightarrow> (Inl e, st2)
                      | (Inr chain, st2) \<Rightarrow>
                          (Inr \<lparr>cp_mainFunction = mainFn, cp_functions = fs,
                                cp_udfFuncChain = udfChain,
                                cp_aggregatedFunctions = aggregated,
                                cp_funcChain = chain\<rparr>, st2))))"

subsection \<open>The message handler\<close>

definition loadConnection ::
  "env \<Rightarrow> string \<Rightarrow> state \<Rightarrow> (error + EnrichedConnectionConfig option) \<times> state" where
  "loadConnection env key st = (getEnrichedConnection env key, emit (GetEnrichedConnection key) st)"

definition eventContext :: "IngestMessage \<Rightarrow> EnrichedConnectionConfig \<Rightarrow> int \<Rightarrow> EventContext" where
  "eventContext msg conn r =
     \<lparr>headers = httpHeaders msg, geo = msg_geo msg, retries = r,
      source = \<lparr>src_id = streamId conn, src_domain = origin_domain msg\<rparr>,
      destination = \<lparr>dst_id = conn_destinationId conn, dst_type = conn_type conn,
                     dst_updatedAt = updatedAt conn, dst_hash = credentialsHash conn\<rparr>,
      connection = \<lparr>cn_id = conn_id conn, cn_mode = conn_mode conn,
                    cn_options = conn_options conn\<rparr>\<rparr>"

text \<open>
  \<^verbatim>\<open>rotorMessageHandler(_message, functionsFilter, retries = 0)\<close>: the raw message
  (\<open>None\<close> for \<^verbatim>\<open>undefined\<close>), the optional filter and the optional retry count.
  Log lines and the handles of the redis client and the redis logger, which the handler
  only passes on, are left out.
\<close>

definition rotorMessageHandler ::
  "env \<Rightarrow> string option \<Rightarrow> (string \<Rightarrow> bool) option \<Rightarrow> int option \<Rightarrow> state
     \<Rightarrow> (error + unit) \<times> state" where
  "rotorMessageHandler env m functionsFilter retries_arg st =
     (case m of
        None \<Rightarrow> (Inr (), st)
      | Some s \<Rightarrow>
          if s = [] then (Inr (), st)
          else
            (case JSON_parse env s of
               Inl e \<Rightarrow> (Inl e, emit (JsonParse s) st)
             | Inr msg \<Rightarrow>
                 (case getCachedOrLoad connectionsCache (connectionId msg) (loadConnection env)
                         (emit (JsonParse s) st) of
                    (Inl e, st1) \<Rightarrow> (Inl e, st1)
                  | (Inr c, st1) \<Rightarrow>
                      (case requireDefined c (''Unknown connection: '' @ connectionId msg) of
                         Inl e \<Rightarrow> (Inl e, st1)
                       | Inr conn \<Rightarrow>
                           (let ctx = eventContext msg conn
                                        (case retries_arg of None \<Rightarrow> 0 | Some r \<Rightarrow> r)
                            in case buildChain env msg conn functionsFilter st1 of
                                 (Inl e, st2) \<Rightarrow> (Inl e, st2)
                               | (Inr parts, st2) \<Rightarrow>
                                   (case runChain env (cp_funcChain parts) (httpPayload msg) conn
                                           (store_of conn) ctx
                                           (emit (RunChain (map func_id (cp_funcChain parts))) st2) of
                                      (chainRes, st3) \<Rightarrow>
                                        (let st4 = emit (LogMetrics (workspaceId conn) (messageId msg)) st3
                                         in case checkError env chainRes of
                                              Some e \<Rightarrow> (Inl e, st4)
                                            | None \<Rightarrow> (Inr (), st4))))))))"

section \<open>Properties\<close>

subsection \<open>Vocabulary of the statements\<close>

text \<open>The effects that a run from \<open>st\<close> to \<open>st'\<close> added to the trace.\<close>

definition new_effects :: "state \<Rightarrow> state \<Rightarrow> effect list" where
  "new_effects st st' = drop (length (trace st)) (trace st')"

text \<open>
  What the generic lookup needs of a cache object: its entries are read back as written,
  and neither the trace, the clock nor the deletion listener touches them. The three
  caches of the program satisfy it.
\<close>

definition wf_cache :: "'v cache_ref \<Rightarrow> bool" where
  "wf_cache c =
     ((\<forall>d st. rd c (wr c d st) = d) \<and>
      (\<forall>e st. rd c (emit e st) = rd c st) \<and>
      (\<forall>n st. rd c (st\<lparr>now := n\<rparr>) = rd c st) \<and>
      (\<forall>k v st. rd c (del_listener c k v st) = rd c st))"


text \<open>The run from \<open>st\<close> to \<open>st'\<close> only added effects that satisfy \<open>P\<close>.\<close>

definition extends :: "state \<Rightarrow> state \<Rightarrow> (effect \<Rightarrow> bool) \<Rightarrow> bool" where
  "extends st st' P = (\<exists>es. trace st' = trace st @ es \<and> list_all P es)"


text \<open>
  The terminal step of a connection that uses the bulker: the bulker builtin with the
  endpoint and the key of the environment, the connection id of the message, and the
  data layout of the connection's options when there is one.
\<close>

definition bulker_step :: "env \<Rightarrow> IngestMessage \<Rightarrow> EnrichedConnectionConfig \<Rightarrow> function_ref" where
  "bulker_step env msg conn =
     \<lparr>functionId = ''builtin.destination.bulker'',
      functionOptions = BulkerOptions
        \<lparr>bulkerEndpoint = bulkerBase env,
         destinationId = connectionId msg,
         authToken = bulkerAuthKey env,
         dataLayout = (case opt_dataLayout (conn_options conn) of
                         Some d \<Rightarrow> d
                       | None \<Rightarrow> ''segment-single-table'')\<rparr>\<rparr>"

text \<open>The error thrown at line 144.\<close>

definition config_error :: "EnrichedConnectionConfig \<Rightarrow> error" where
  "config_error conn =
     Error (''Connection with id '' @ conn_id conn
            @ '' has no functions assigned to it's destination type - '' @ conn_type conn)"

subsection \<open>A concrete configuration\<close>

text \<open>
  A message for connection \<open>c1\<close> of workspace \<open>w1\<close>; a store that knows the functions
  \<open>f1\<close> (workspace \<open>w1\<close>) and \<open>f9\<close> (workspace \<open>w2\<close>); an isolate pool whose first wrapper
  (handle 0) is disposed while later ones work; an executor that passes the event on.
\<close>

definition ex_msg :: IngestMessage where
  "ex_msg = \<lparr>connectionId = ''c1'', messageId = ''m1'', msg_type = ''track'',
             httpPayload = ''{click}'', httpHeaders = ''{}'', msg_geo = ''{}'',
             origin_domain = None\<rparr>"

definition ex_conn :: "function_ref list option \<Rightarrow> bool \<Rightarrow> string \<Rightarrow> EnrichedConnectionConfig" where
  "ex_conn fs bulker ty =
     \<lparr>conn_id = ''c1'', workspaceId = ''w1'', streamId = ''s1'', conn_destinationId = ''d1'',
      conn_type = ty, updatedAt = ''2023'', credentialsHash = ''ch'', conn_mode = ''stream'',
      conn_options = \<lparr>opt_functions = fs, opt_dataLayout = None, opt_other = ''''\<rparr>,
      usesBulker = bulker, credentials = ''{secret}''\<rparr>"

definition ex_env :: "EnrichedConnectionConfig \<Rightarrow> env" where
  "ex_env conn =
     \<lparr>JSON_parse = (\<lambda>s. if s = ''{m1}'' then Inr ex_msg else Inl (Error ''Unexpected token'')),
      getEnrichedConnection = (\<lambda>k. Inr (if k = ''c1'' then Some conn else None)),
      getConfig = (\<lambda>kind k.
         Inr (if k = ''f1'' then Some \<lparr>fn_workspaceId = ''w1'', fn_name = ''first'', fn_code = ''code1''\<rparr>
              else if k = ''f9'' then Some \<lparr>fn_workspaceId = ''w2'', fn_name = ''ninth'', fn_code = ''code9''\<rparr>
              else None)),
      getBuiltinFunction = (\<lambda>i.
         if i = ''builtin.destination.bulker'' \<or> i = ''builtin.destination.webhook''
            \<or> i = ''builtin.destination.tag'' \<or> i = ''builtin.transformation.user-recognition''
         then Some (JitsuFunction i) else None),
      object_hash = (\<lambda>c. ''#'' @ c),
      userFunction = (\<lambda>w ev ctx st. if w = 0 then Inl (Error ''Isolate is disposed'') else Inr ev),
      bulkerBase = ''http://bulker'',
      bulkerAuthKey = ''key'',
      mongoAnonymousEventsStore = ''mongo'',
      runChain = (\<lambda>chain ev conn store ctx st. (\<lparr>events = [ev], execLog = ''''\<rparr>, st)),
      checkError = (\<lambda>res. None)\<rparr>"

definition ex_state :: state where
  "ex_state = \<lparr>now = 1000, connectionsCache_data = Map.empty, functionsCache_data = Map.empty,
               udfCache_data = Map.empty, next_wrapper = 0, trace = []\<rparr>"

definition ex_ctx :: "SystemContext option \<Rightarrow> FullContext" where
  "ex_ctx sys =
     \<lparr>headers = ''{}'', geo = ''{}'', retries = 0,
      source = \<lparr>src_id = ''s1'', src_domain = None\<rparr>,
      destination = \<lparr>dst_id = ''d1'', dst_type = ''webhook'', dst_updatedAt = ''2023'', dst_hash = ''ch''\<rparr>,
      connection = \<lparr>cn_id = ''c1'', cn_mode = ''stream'',
                    cn_options = \<lparr>opt_functions = None, opt_dataLayout = None, opt_other = ''''\<rparr>\<rparr>,
      dollar_system = sys, props = Undefined, ctx_store = ''store:c1'', ctx_log = ''log''\<rparr>"

definition ex_clo :: udf_closure where
  "ex_clo = \<lparr>uc_functionId = ''f1'', uc_name = ''first'', uc_code = ''code1'',
             uc_codeHash = ''#code1'', uc_cached = \<lparr>wrapper = 0, hash = ''#code1''\<rparr>\<rparr>"


text \<open>Declared lists: a destination, a user function and a transformation, interleaved;
  and a reference of no known kind.\<close>

definition ex_mixed :: "function_ref list" where
  "ex_mixed = [\<lparr>functionId = ''builtin.destination.tag'', functionOptions = Undefined\<rparr>,
               \<lparr>functionId = ''udf.f1'', functionOptions = Undefined\<rparr>,
               \<lparr>functionId = ''builtin.transformation.user-recognition'', functionOptions = Undefined\<rparr>]"

definition ex_unknown :: "function_ref list" where
  "ex_unknown = [\<lparr>functionId = ''foo.bar'', functionOptions = Undefined\<rparr>]"

section \<open>Auxiliary lemmas\<close>

lemmas model_defs =
  rotorMessageHandler_def buildChain_def udfFuncChain_def funcChain_def funcChainStep_def
  aggregatedFunctions_def functionsList_def declared_def passes_def mainFunction_def
  udfFunc_def acquire_def getCachedOrLoad_def loadFunction_def loadConnection_def
  cache_get_def cache_set_def cache_ttl_def cache_del_def expired_def wrap_ttl_def
  connectionsCache_def functionsCache_def udfCache_def udfTTL_def UDFWrapper_def
  requireDefined_def emit_def eventContext_def store_of_def Let_def

lemmas example_defs = ex_env_def ex_conn_def ex_msg_def ex_state_def

subsection \<open>Identifiers\<close>

lemma startsWith_append: "startsWith (p @ s) p"
  by (induction p) auto

lemma mainFunction_dest:
  "mainFunction env msg conn = Inr m \<Longrightarrow> startsWith (functionId m) ''builtin.destination.''"
  by (auto simp: mainFunction_def startsWith_append split: if_splits option.splits)

lemma mainFunction_not_trans:
  "mainFunction env msg conn = Inr m \<Longrightarrow> \<not> startsWith (functionId m) ''builtin.transformation.''"
  by (auto simp: mainFunction_def split: if_splits option.splits)

lemma startsWith_prefix: "startsWith s (p @ q) \<Longrightarrow> startsWith s p"
  by (induction s p rule: startsWith.induct) auto

lemma mainFunction_not_udf:
  "mainFunction env msg conn = Inr m \<Longrightarrow> \<not> startsWith (functionId m) ''udf.''"
  by (auto simp: mainFunction_def split: if_splits option.splits)

subsection \<open>The caches\<close>

lemma wf_connectionsCache: "wf_cache connectionsCache"
  by (simp add: wf_cache_def connectionsCache_def emit_def)

lemma wf_functionsCache: "wf_cache functionsCache"
  by (simp add: wf_cache_def functionsCache_def emit_def)

lemma wf_udfCache: "wf_cache udfCache"
  by (simp add: wf_cache_def udfCache_def emit_def split: option.splits)

lemma rd_cache_set:
  "wf_cache c \<Longrightarrow> rd c (cache_set c key v st) = (rd c st)(key \<mapsto> (v, wrap_ttl (now st) (stdTTL c)))"
  by (simp add: wf_cache_def cache_set_def Let_def emit_def)

lemma cache_get_hit:
  assumes "wf_cache c" "rd c st key = Some (Some v, t)" "\<not> expired t (now st)"
  shows "cache_get c key st = (Some v, emit (CacheGet (cache_id c) key) st)"
  using assms by (simp add: wf_cache_def cache_get_def Let_def emit_def)

lemma cache_get_nil:
  assumes "wf_cache c" "rd c st key = Some (None, t)"
  shows "fst (cache_get c key st) = None"
  using assms by (simp add: wf_cache_def cache_get_def Let_def emit_def)

lemma cache_get_Some_entry:
  assumes "wf_cache c" "cache_get c key st = (Some v, st1)"
  shows "\<exists>t. rd c st1 key = Some (Some v, t) \<and> \<not> expired t (now st) \<and> st1 = emit (CacheGet (cache_id c) key) st"
  using assms
  by (auto simp: wf_cache_def cache_get_def Let_def emit_def split: option.splits if_splits)

lemma getCachedOrLoad_miss:
  assumes "fst (cache_get c key st) = None"
  shows "getCachedOrLoad c key loader st =
          (case loader key (snd (cache_get c key st)) of
             (Inl e, s) \<Rightarrow> (Inl e, s)
           | (Inr loaded, s) \<Rightarrow> (Inr loaded, cache_set c key loaded s))"
  using assms by (cases "cache_get c key st") (simp add: getCachedOrLoad_def)

lemma getCachedOrLoad_result_entry:
  assumes wf: "wf_cache c" and run: "getCachedOrLoad c key loader st = (Inr r, st1)"
  shows "\<exists>t. rd c st1 key = Some (r, t)"
proof (cases "cache_get c key st")
  case (Pair a s)
  show ?thesis
  proof (cases a)
    case None
    with Pair run wf show ?thesis
      by (auto simp: getCachedOrLoad_def rd_cache_set split: prod.splits sum.splits)
  next
    case (Some v)
    with Pair run have "r = Some v" "st1 = s" by (auto simp: getCachedOrLoad_def)
    with cache_get_Some_entry[OF wf, of key st v s] Pair Some show ?thesis by auto
  qed
qed

subsection \<open>Traces\<close>

lemma extends_refl: "extends st st P"
  by (simp add: extends_def)




subsection \<open>What a lookup and a resolution leave untouched\<close>








lemma udfFunc_id:
  "udfFunc env conn g st = (Inr y, st') \<Longrightarrow> func_id y = functionId g"
  by (auto simp: udfFunc_def Let_def split: sum.splits prod.splits if_splits)

lemma promise_all_map_ids:
  "promise_all_map (udfFunc env conn) xs st = (Inr ys, st') \<Longrightarrow> map func_id ys = map functionId xs"
  by (induction xs arbitrary: st ys) (auto split: prod.splits sum.splits dest: udfFunc_id)




subsection \<open>The handler up to the chain\<close>

lemma handler_resolved:
  assumes "s \<noteq> []" "JSON_parse env s = Inr msg"
    and "getCachedOrLoad connectionsCache (connectionId msg) (loadConnection env)
           (emit (JsonParse s) st) = (Inr (Some conn), st1)"
    and "buildChain env msg conn ff st1 = (Inl e, st2)"
  shows "rotorMessageHandler env (Some s) ff r st = (Inl e, st2)"
  using assms by (simp add: rotorMessageHandler_def requireDefined_def)


lemma buildChain_Inr:
  assumes "buildChain env msg conn ff st = (Inr parts, st')"
  shows "mainFunction env msg conn = Inr (cp_mainFunction parts) \<and>
         cp_functions parts = functionsList ff conn (cp_mainFunction parts) \<and>
         (\<exists>st1. promise_all_map (udfFunc env conn)
                  (filter (\<lambda>f. startsWith (functionId f) ''udf.'') (cp_functions parts)) st
                = (Inr (cp_udfFuncChain parts), st1)) \<and>
         cp_aggregatedFunctions parts = aggregatedFunctions (cp_functions parts) (cp_udfFuncChain parts)"
  using assms
  by (auto simp: buildChain_def udfFuncChain_def Let_def split: sum.splits prod.splits)

text \<open>Every reference of the aggregated list is a builtin or the pipeline step.\<close>

lemma aggregated_known:
  assumes "f \<in> set (aggregatedFunctions fs udfChain)"
  shows "startsWith (functionId f) ''builtin.'' \<or> functionId f = ''udf.PIPELINE''"
proof -
  have t: "startsWith s ''builtin.transformation.'' \<Longrightarrow> startsWith s ''builtin.''" for s
    using startsWith_prefix[of s "''builtin.''" "''transformation.''"] by simp
  have d: "startsWith s ''builtin.destination.'' \<Longrightarrow> startsWith s ''builtin.''" for s
    using startsWith_prefix[of s "''builtin.''" "''destination.''"] by simp
  from assms t d show ?thesis
    by (auto simp: aggregatedFunctions_def split: if_splits)
qed

section \<open>The claims\<close>

text \<open>
  C1. Whenever the chain is built, the aggregated list is the transformations of the
  list \<^verbatim>\<open>functions\<close> in their order, then one \<open>udf.PIPELINE\<close> step exactly when the
  chain of user functions is not empty (it has one step per \<open>udf.\<close> reference, in
  order), then the destinations of \<^verbatim>\<open>functions\<close> in their order; \<^verbatim>\<open>functions\<close> is
  the declared list followed by the terminal step, restricted to the filter when one is
  given. With no filter this is: the declared transformations, the pipeline step when a
  user function is declared, the declared destinations, the terminal step - however the
  declared list interleaves them.
\<close>

theorem aggregatedFunctions_order:
  assumes run: "buildChain env msg conn functionsFilter st = (Inr parts, st')"
  shows "cp_functions parts = filter (passes functionsFilter) (declared conn @ [cp_mainFunction parts]) \<and>
         cp_aggregatedFunctions parts =
           filter (\<lambda>f. startsWith (functionId f) ''builtin.transformation.'') (cp_functions parts)
           @ (if cp_udfFuncChain parts \<noteq> []
              then [\<lparr>functionId = ''udf.PIPELINE'', functionOptions = Undefined\<rparr>] else [])
           @ filter (\<lambda>f. startsWith (functionId f) ''builtin.destination.'') (cp_functions parts) \<and>
         map func_id (cp_udfFuncChain parts) =
           map functionId (filter (\<lambda>f. startsWith (functionId f) ''udf.'') (cp_functions parts)) \<and>
         (functionsFilter = None \<longrightarrow>
            cp_aggregatedFunctions parts =
              filter (\<lambda>f. startsWith (functionId f) ''builtin.transformation.'') (declared conn)
              @ (if filter (\<lambda>f. startsWith (functionId f) ''udf.'') (declared conn) \<noteq> []
                 then [\<lparr>functionId = ''udf.PIPELINE'', functionOptions = Undefined\<rparr>] else [])
              @ filter (\<lambda>f. startsWith (functionId f) ''builtin.destination.'') (declared conn)
              @ [cp_mainFunction parts])"
proof -
  from buildChain_Inr[OF run] obtain st1 where
    main: "mainFunction env msg conn = Inr (cp_mainFunction parts)" and
    fs: "cp_functions parts = functionsList functionsFilter conn (cp_mainFunction parts)" and
    udf: "promise_all_map (udfFunc env conn)
            (filter (\<lambda>f. startsWith (functionId f) ''udf.'') (cp_functions parts)) st
          = (Inr (cp_udfFuncChain parts), st1)" and
    agg: "cp_aggregatedFunctions parts = aggregatedFunctions (cp_functions parts) (cp_udfFuncChain parts)"
    by blast
  have a: "cp_functions parts = filter (passes functionsFilter) (declared conn @ [cp_mainFunction parts])"
    using fs by (simp add: functionsList_def)
  have b: "cp_aggregatedFunctions parts =
           filter (\<lambda>f. startsWith (functionId f) ''builtin.transformation.'') (cp_functions parts)
           @ (if cp_udfFuncChain parts \<noteq> []
              then [\<lparr>functionId = ''udf.PIPELINE'', functionOptions = Undefined\<rparr>] else [])
           @ filter (\<lambda>f. startsWith (functionId f) ''builtin.destination.'') (cp_functions parts)"
    using agg by (simp add: aggregatedFunctions_def)
  have c: "map func_id (cp_udfFuncChain parts) =
           map functionId (filter (\<lambda>f. startsWith (functionId f) ''udf.'') (cp_functions parts))"
    using udf by (rule promise_all_map_ids)
  have d: "cp_aggregatedFunctions parts =
              filter (\<lambda>f. startsWith (functionId f) ''builtin.transformation.'') (declared conn)
              @ (if filter (\<lambda>f. startsWith (functionId f) ''udf.'') (declared conn) \<noteq> []
                 then [\<lparr>functionId = ''udf.PIPELINE'', functionOptions = Undefined\<rparr>] else [])
              @ filter (\<lambda>f. startsWith (functionId f) ''builtin.destination.'') (declared conn)
              @ [cp_mainFunction parts]"
    if nf: "functionsFilter = None"
  proof -
    have fs': "cp_functions parts = declared conn @ [cp_mainFunction parts]"
      using a nf by (simp add: passes_def)
    have e: "(cp_udfFuncChain parts \<noteq> []) =
             (filter (\<lambda>f. startsWith (functionId f) ''udf.'') (declared conn) \<noteq> [])"
    proof -
      have "length (cp_udfFuncChain parts) =
            length (filter (\<lambda>f. startsWith (functionId f) ''udf.'') (cp_functions parts))"
        using c by (metis length_map)
      then show ?thesis
        using fs' mainFunction_not_udf[OF main] by auto
    qed
    show ?thesis
      using b e fs' mainFunction_dest[OF main] mainFunction_not_trans[OF main] by simp
  qed
  from a b c d show ?thesis by blast
qed

theorem aggregatedFunctions_order_witness:
  "\<exists>parts st'.
     buildChain (ex_env (ex_conn (Some ex_mixed) True ''webhook'')) ex_msg
       (ex_conn (Some ex_mixed) True ''webhook'') None ex_state = (Inr parts, st') \<and>
     map functionId (cp_aggregatedFunctions parts) =
       [''builtin.transformation.user-recognition'', ''udf.PIPELINE'',
        ''builtin.destination.tag'', ''builtin.destination.bulker'']"
proof -
  let ?C = "ex_conn (Some ex_mixed) True ''webhook''"
  let ?X = "buildChain (ex_env ?C) ex_msg ?C None ex_state"
  define P where "P = projr (fst ?X)"
  have run: "?X = (Inr P, snd ?X)"
    by (simp add: P_def model_defs example_defs ex_mixed_def)
  have "Inr (cp_mainFunction P) = mainFunction (ex_env ?C) ex_msg ?C"
    using buildChain_Inr[OF run] by simp
  then have m: "functionId (cp_mainFunction P) = ''builtin.destination.bulker''"
    by (simp add: mainFunction_def ex_conn_def)
  have d: "declared ?C = ex_mixed"
    by (simp add: declared_def ex_conn_def)
  from aggregatedFunctions_order[OF run]
  have "cp_aggregatedFunctions P =
              filter (\<lambda>f. startsWith (functionId f) ''builtin.transformation.'') (declared ?C)
              @ (if filter (\<lambda>f. startsWith (functionId f) ''udf.'') (declared ?C) \<noteq> []
                 then [\<lparr>functionId = ''udf.PIPELINE'', functionOptions = Undefined\<rparr>] else [])
              @ filter (\<lambda>f. startsWith (functionId f) ''builtin.destination.'') (declared ?C)
              @ [cp_mainFunction P]"
    by blast
  then have ids: "map functionId (cp_aggregatedFunctions P) =
       [''builtin.transformation.user-recognition'', ''udf.PIPELINE'',
        ''builtin.destination.tag'', ''builtin.destination.bulker'']"
    unfolding d by (simp add: ex_mixed_def m)
  show ?thesis
    by (rule exI[of _ P], rule exI[of _ "snd ?X"], rule conjI, rule run, rule ids)
qed

text \<open>
  C2. When the wrapper's user function fails with the error \<open>Isolate is disposed\<close>, the
  closure compiles the same code once more, stores the new wrapper in the cache of
  compiled functions under the same hash, and invokes the new wrapper once: the effects
  of the call are exactly the failed invocation, one compile, one store and one
  invocation, and whatever the retry gives (a second \<open>Isolate is disposed\<close> included)
  is the outcome. Any other error is the outcome at once, with nothing compiled or stored.
\<close>

theorem exec_udf_disposed_retry:
  assumes run: "exec_udf env clo event ctx st = (r, clo', st')"
  shows
    "(\<forall>e. userFunction env (wrapper (uc_cached clo)) event ctx st = Inl e \<and>
          message e = ''Isolate is disposed'' \<longrightarrow>
        new_effects st st' =
          [UserFunction (wrapper (uc_cached clo)) event,
           Compile (uc_functionId clo) (uc_name clo) (uc_code clo) (next_wrapper st),
           CacheSet UdfCache (uc_functionId clo),
           UserFunction (next_wrapper st) event] \<and>
        uc_cached clo' = \<lparr>wrapper = next_wrapper st, hash = uc_codeHash clo\<rparr> \<and>
        udfCache_data st' (uc_functionId clo) =
          Some (Some \<lparr>wrapper = next_wrapper st, hash = uc_codeHash clo\<rparr>, wrap_ttl (now st) udfTTL) \<and>
        (\<exists>s. r = userFunction env (next_wrapper st) event ctx s \<and>
             new_effects st s = butlast (new_effects st st'))) \<and>
     (\<forall>e. userFunction env (wrapper (uc_cached clo)) event ctx st = Inl e \<and>
          message e \<noteq> ''Isolate is disposed'' \<longrightarrow>
        r = Inl e \<and> clo' = clo \<and>
        new_effects st st' = [UserFunction (wrapper (uc_cached clo)) event] \<and>
        udfCache_data st' = udfCache_data st \<and> next_wrapper st' = next_wrapper st) \<and>
     (\<forall>v. userFunction env (wrapper (uc_cached clo)) event ctx st = Inr v \<longrightarrow>
        r = Inr v \<and> clo' = clo \<and>
        new_effects st st' = [UserFunction (wrapper (uc_cached clo)) event] \<and>
        udfCache_data st' = udfCache_data st \<and> next_wrapper st' = next_wrapper st)"
proof (cases "userFunction env (wrapper (uc_cached clo)) event ctx st")
  case (Inr v)
  with run show ?thesis
    by (auto simp: exec_udf_def invoke_def emit_def new_effects_def)
next
  case (Inl e)
  show ?thesis
  proof (cases "message e = ''Isolate is disposed''")
    case False
    with Inl run show ?thesis
      by (auto simp: exec_udf_def invoke_def emit_def new_effects_def)
  next
    case True
    define s where "s = cache_set udfCache (uc_functionId clo) (Some \<lparr>wrapper = next_wrapper st, hash = uc_codeHash clo\<rparr>)
        (snd (UDFWrapper (uc_functionId clo) (uc_name clo) (uc_code clo) (emit (UserFunction (wrapper (uc_cached clo)) event) st)))"
    have r: "r = userFunction env (next_wrapper st) event ctx s"
      and st': "st' = emit (UserFunction (next_wrapper st) event) s"
      and clo': "clo' = clo\<lparr>uc_cached := \<lparr>wrapper = next_wrapper st, hash = uc_codeHash clo\<rparr>\<rparr>"
      using run Inl True
      by (auto simp: exec_udf_def invoke_def s_def UDFWrapper_def Let_def emit_def)
    have tr: "trace s = trace st @ [UserFunction (wrapper (uc_cached clo)) event,
           Compile (uc_functionId clo) (uc_name clo) (uc_code clo) (next_wrapper st),
           CacheSet UdfCache (uc_functionId clo)]"
      by (simp add: s_def cache_set_def UDFWrapper_def emit_def udfCache_def Let_def)
    have ca: "udfCache_data s (uc_functionId clo) =
          Some (Some \<lparr>wrapper = next_wrapper st, hash = uc_codeHash clo\<rparr>, wrap_ttl (now st) udfTTL)"
      by (simp add: s_def cache_set_def UDFWrapper_def emit_def udfCache_def Let_def)
    show ?thesis
      using Inl True r st' clo' tr ca
      by (auto simp: new_effects_def emit_def intro!: exI[of _ s])
  qed
qed

theorem exec_udf_disposed_retry_witness:
  "fst (exec_udf (ex_env (ex_conn None True ''webhook'')) ex_clo ''{click}'' (ex_ctx None)
          (ex_state\<lparr>next_wrapper := 1\<rparr>)) = Inr ''{click}'' \<and>
   new_effects (ex_state\<lparr>next_wrapper := 1\<rparr>)
     (snd (snd (exec_udf (ex_env (ex_conn None True ''webhook'')) ex_clo ''{click}'' (ex_ctx None)
          (ex_state\<lparr>next_wrapper := 1\<rparr>)))) =
     [UserFunction 0 ''{click}'', Compile ''f1'' ''first'' ''code1'' 1, CacheSet UdfCache ''f1'',
      UserFunction 1 ''{click}'']"
proof -
  let ?env = "ex_env (ex_conn None True ''webhook'')"
  let ?st = "ex_state\<lparr>next_wrapper := 1\<rparr>"
  let ?X = "exec_udf ?env ex_clo ''{click}'' (ex_ctx None) ?st"
  have run: "?X = (fst ?X, fst (snd ?X), snd (snd ?X))" by simp
  have first: "userFunction ?env (wrapper (uc_cached ex_clo)) ''{click}'' (ex_ctx None) ?st
                 = Inl (Error ''Isolate is disposed'')"
    by (simp add: ex_env_def ex_clo_def)
  have nw: "next_wrapper ?st = 1" by simp
  from exec_udf_disposed_retry[OF run] first nw
  have ne: "new_effects ?st (snd (snd ?X)) =
          [UserFunction 0 ''{click}'', Compile ''f1'' ''first'' ''code1'' 1,
           CacheSet UdfCache ''f1'', UserFunction 1 ''{click}'']"
    and r: "\<exists>s. fst ?X = userFunction ?env 1 ''{click}'' (ex_ctx None) s"
    by (auto simp: ex_clo_def)
  from r have "fst ?X = Inr ''{click}''" by (auto simp: ex_env_def)
  with ne show ?thesis by simp
qed

text \<open>
  C3. The code does not do what the claim says. When the cache holds a live entry for
  \<open>fid\<close> whose hash is not the hash of the current code, \<open>acquire\<close> compiles a new
  wrapper (a handle never given before), returns it and stores it with the new hash over
  the old entry; the store is a plain \<open>set\<close>, nothing is deleted, so the listener that
  closes wrappers does not run: the effects of the call are one lookup, one compile, one
  store and one extension of the time to live, and no \<open>Close\<close> of the old wrapper.
\<close>

theorem acquire_changed_code_no_close:
  assumes entry: "udfCache_data st fid = Some (Some \<lparr>wrapper = w1, hash = h1\<rparr>, t)"
    and live: "\<not> expired t (now st)"
    and changed: "h1 \<noteq> object_hash env code2"
  shows "\<exists>st'. acquire env fid name code2 st =
                 (Inr \<lparr>wrapper = next_wrapper st, hash = object_hash env code2\<rparr>, st') \<and>
          udfCache_data st' fid =
            Some (Some \<lparr>wrapper = next_wrapper st, hash = object_hash env code2\<rparr>,
                  wrap_ttl (now st) udfTTL) \<and>
          trace st' = trace st @
            [CacheGet UdfCache fid, Compile fid name code2 (next_wrapper st),
             CacheSet UdfCache fid, CacheTtl UdfCache fid] \<and>
          Close w1 \<notin> set (new_effects st st')"
proof -
  let ?c = "\<lparr>wrapper = next_wrapper st, hash = object_hash env code2\<rparr>"
  let ?s0 = "emit (CacheGet UdfCache fid) st"
  have get: "cache_get udfCache fid st = (Some \<lparr>wrapper = w1, hash = h1\<rparr>, ?s0)"
    using cache_get_hit[OF wf_udfCache, of st fid "\<lparr>wrapper = w1, hash = h1\<rparr>" t] entry live
    by (simp add: udfCache_def)
  define s3 where "s3 = cache_ttl udfCache fid udfTTL
      (cache_set udfCache fid (Some ?c) (snd (UDFWrapper fid name code2 ?s0)))"
  have run: "acquire env fid name code2 st = (Inr ?c, s3)"
    using changed
    by (simp add: acquire_def getCachedOrLoad_def get Let_def UDFWrapper_def s3_def emit_def)
  have tr: "trace s3 = trace st @
            [CacheGet UdfCache fid, Compile fid name code2 (next_wrapper st),
             CacheSet UdfCache fid, CacheTtl UdfCache fid]"
    by (simp add: s3_def cache_ttl_def cache_set_def UDFWrapper_def udfCache_def emit_def Let_def
          expired_def wrap_ttl_def udfTTL_def)
  have ca: "udfCache_data s3 fid = Some (Some ?c, wrap_ttl (now st) udfTTL)"
    by (simp add: s3_def cache_ttl_def cache_set_def UDFWrapper_def udfCache_def emit_def Let_def
          expired_def wrap_ttl_def udfTTL_def)
  have ne: "new_effects st s3 =
            [CacheGet UdfCache fid, Compile fid name code2 (next_wrapper st),
             CacheSet UdfCache fid, CacheTtl UdfCache fid]"
    using tr by (simp add: new_effects_def)
  have "Close w1 \<notin> set (new_effects st s3)"
    unfolding ne by simp
  with run ca tr show ?thesis by blast
qed

theorem acquire_changed_code_no_close_witness:
  "fst (acquire (ex_env (ex_conn None True ''webhook'')) ''f1'' ''first'' ''code1'' ex_state)
     = Inr \<lparr>wrapper = 0, hash = ''#code1''\<rparr> \<and>
   fst (acquire (ex_env (ex_conn None True ''webhook'')) ''f1'' ''first'' ''code2''
          (snd (acquire (ex_env (ex_conn None True ''webhook'')) ''f1'' ''first'' ''code1'' ex_state)))
     = Inr \<lparr>wrapper = 1, hash = ''#code2''\<rparr> \<and>
   trace (snd (acquire (ex_env (ex_conn None True ''webhook'')) ''f1'' ''first'' ''code2''
          (snd (acquire (ex_env (ex_conn None True ''webhook'')) ''f1'' ''first'' ''code1'' ex_state))))
     = [CacheGet UdfCache ''f1'', Compile ''f1'' ''first'' ''code1'' 0, CacheSet UdfCache ''f1'',
        CacheTtl UdfCache ''f1'',
        CacheGet UdfCache ''f1'', Compile ''f1'' ''first'' ''code2'' 1, CacheSet UdfCache ''f1'',
        CacheTtl UdfCache ''f1'']"
proof -
  let ?E = "ex_env (ex_conn None True ''webhook'')"
  define s1 where "s1 = snd (acquire ?E ''f1'' ''first'' ''code1'' ex_state)"
  have first: "fst (acquire ?E ''f1'' ''first'' ''code1'' ex_state) = Inr \<lparr>wrapper = 0, hash = ''#code1''\<rparr>"
    by (simp add: model_defs example_defs)
  have entry: "udfCache_data s1 ''f1'' = Some (Some \<lparr>wrapper = 0, hash = ''#code1''\<rparr>, 601000)"
    and nw: "next_wrapper s1 = 1" and n: "now s1 = 1000"
    and tr1: "trace s1 = [CacheGet UdfCache ''f1'', Compile ''f1'' ''first'' ''code1'' 0,
                          CacheSet UdfCache ''f1'', CacheTtl UdfCache ''f1'']"
    by (simp_all add: s1_def model_defs example_defs)
  have live: "\<not> expired 601000 (now s1)" by (simp add: n expired_def)
  have changed: "''#code1'' \<noteq> object_hash ?E ''code2''" by (simp add: ex_env_def)
  from acquire_changed_code_no_close[OF entry live changed, of "''first''"]
  obtain st' where run: "acquire ?E ''f1'' ''first'' ''code2'' s1 =
                 (Inr \<lparr>wrapper = next_wrapper s1, hash = object_hash ?E ''code2''\<rparr>, st')"
    and ne: "trace st' = trace s1 @
            [CacheGet UdfCache ''f1'', Compile ''f1'' ''first'' ''code2'' (next_wrapper s1),
             CacheSet UdfCache ''f1'', CacheTtl UdfCache ''f1'']"
    by blast
  have h: "object_hash ?E ''code2'' = ''#code2''" by (simp add: ex_env_def)
  have second: "fst (acquire ?E ''f1'' ''first'' ''code2'' s1) = Inr \<lparr>wrapper = 1, hash = ''#code2''\<rparr>"
    using run nw h by simp
  have "trace st' = [CacheGet UdfCache ''f1'', Compile ''f1'' ''first'' ''code1'' 0, CacheSet UdfCache ''f1'',
        CacheTtl UdfCache ''f1'',
        CacheGet UdfCache ''f1'', Compile ''f1'' ''first'' ''code2'' 1, CacheSet UdfCache ''f1'',
        CacheTtl UdfCache ''f1'']"
    using ne by (simp add: tr1 nw)
  then have tr: "trace (snd (acquire ?E ''f1'' ''first'' ''code2'' s1)) =
       [CacheGet UdfCache ''f1'', Compile ''f1'' ''first'' ''code1'' 0, CacheSet UdfCache ''f1'',
        CacheTtl UdfCache ''f1'',
        CacheGet UdfCache ''f1'', Compile ''f1'' ''first'' ''code2'' 1, CacheSet UdfCache ''f1'',
        CacheTtl UdfCache ''f1'']"
    using run by simp
  from first second tr show ?thesis unfolding s1_def by (intro conjI)
qed

text \<open>
  C4. The code does not do what the claim says. For a connection whose declared list is
  the single reference \<open>foo.bar\<close>, the handler succeeds: the reference is in the list
  \<^verbatim>\<open>functions\<close>, is dropped from the aggregated list, and the chain that runs is the
  bulker step alone. (By \<open>aggregated_known\<close> the branch that throws "Function of
  unknown type" is never reached.)
\<close>

theorem unknown_function_type_ignored:
  "fst (rotorMessageHandler (ex_env (ex_conn (Some ex_unknown) True ''webhook'')) (Some ''{m1}'')
          None None ex_state) = Inr () \<and>
   (\<exists>parts st'.
      buildChain (ex_env (ex_conn (Some ex_unknown) True ''webhook'')) ex_msg
        (ex_conn (Some ex_unknown) True ''webhook'') None ex_state = (Inr parts, st') \<and>
      map functionId (cp_functions parts) = [''foo.bar'', ''builtin.destination.bulker''] \<and>
      map functionId (cp_aggregatedFunctions parts) = [''builtin.destination.bulker''] \<and>
      map func_id (cp_funcChain parts) = [''builtin.destination.bulker''])"
proof -
  let ?C = "ex_conn (Some ex_unknown) True ''webhook''"
  let ?X = "buildChain (ex_env ?C) ex_msg ?C None ex_state"
  have h: "fst (rotorMessageHandler (ex_env ?C) (Some ''{m1}'') None None ex_state) = Inr ()"
    by (simp add: model_defs example_defs ex_unknown_def split: prod.splits)
  have run: "?X = (Inr (projr (fst ?X)), snd ?X)"
    and a: "map functionId (cp_functions (projr (fst ?X))) = [''foo.bar'', ''builtin.destination.bulker'']"
    and b: "map functionId (cp_aggregatedFunctions (projr (fst ?X))) = [''builtin.destination.bulker'']"
    and c: "map func_id (cp_funcChain (projr (fst ?X))) = [''builtin.destination.bulker'']"
    by (simp_all add: model_defs example_defs ex_unknown_def)
  have "\<exists>parts st'. ?X = (Inr parts, st') \<and>
      map functionId (cp_functions parts) = [''foo.bar'', ''builtin.destination.bulker''] \<and>
      map functionId (cp_aggregatedFunctions parts) = [''builtin.destination.bulker''] \<and>
      map func_id (cp_funcChain parts) = [''builtin.destination.bulker'']"
    by (rule exI[of _ "projr (fst ?X)"], rule exI[of _ "snd ?X"], intro conjI, rule run, rule a, rule b, rule c)
  with h show ?thesis by (rule conjI)
qed



text \<open>
  C6. For a connection that uses the bulker, the terminal step is the bulker builtin
  with exactly the options \<open>bulkerEndpoint\<close> (the environment's \<open>BULKER_URL\<close>),
  \<open>destinationId\<close> (the connection id of the message), \<open>authToken\<close> (the environment's
  \<open>BULKER_AUTH_KEY\<close>) and \<open>dataLayout\<close> (that of the options, or
  \<open>segment-single-table\<close>); it is appended to the declared list, and every chain that is
  built has it as its terminal step.
\<close>

theorem mainFunction_bulker:
  assumes "usesBulker conn"
  shows "mainFunction env msg conn = Inr (bulker_step env msg conn) \<and>
         functionsList None conn (bulker_step env msg conn) = declared conn @ [bulker_step env msg conn] \<and>
         (\<forall>ff st parts st'. buildChain env msg conn ff st = (Inr parts, st') \<longrightarrow>
            cp_mainFunction parts = bulker_step env msg conn \<and>
            cp_functions parts = filter (passes ff) (declared conn @ [bulker_step env msg conn]))"
proof -
  have m: "mainFunction env msg conn = Inr (bulker_step env msg conn)"
    using assms by (auto simp: mainFunction_def bulker_step_def split: option.splits)
  have l: "functionsList None conn (bulker_step env msg conn) = declared conn @ [bulker_step env msg conn]"
    by (simp add: functionsList_def passes_def)
  have b: "cp_mainFunction parts = bulker_step env msg conn \<and>
           cp_functions parts = filter (passes ff) (declared conn @ [bulker_step env msg conn])"
    if "buildChain env msg conn ff st = (Inr parts, st')" for ff st parts st'
    using buildChain_Inr[OF that] m by (simp add: functionsList_def)
  from m l b show ?thesis by blast
qed

theorem mainFunction_bulker_witness:
  "mainFunction (ex_env (ex_conn None True ''webhook'')) ex_msg (ex_conn None True ''webhook'') =
     Inr \<lparr>functionId = ''builtin.destination.bulker'',
          functionOptions = BulkerOptions
            \<lparr>bulkerEndpoint = ''http://bulker'', destinationId = ''c1'', authToken = ''key'',
             dataLayout = ''segment-single-table''\<rparr>\<rparr> \<and>
   mainFunction (ex_env (ex_conn None True ''webhook'')) ex_msg
       ((ex_conn None True ''webhook'')
          \<lparr>conn_options := \<lparr>opt_functions = None, opt_dataLayout = Some ''segment'', opt_other = ''''\<rparr>\<rparr>) =
     Inr \<lparr>functionId = ''builtin.destination.bulker'',
          functionOptions = BulkerOptions
            \<lparr>bulkerEndpoint = ''http://bulker'', destinationId = ''c1'', authToken = ''key'',
             dataLayout = ''segment''\<rparr>\<rparr>"
proof -
  let ?C = "ex_conn None True ''webhook''"
  let ?D = "?C\<lparr>conn_options := \<lparr>opt_functions = None, opt_dataLayout = Some ''segment'', opt_other = ''''\<rparr>\<rparr>"
  have u: "usesBulker ?C" "usesBulker ?D" by (simp_all add: ex_conn_def)
  from mainFunction_bulker[OF u(1), of "ex_env ?C" ex_msg]
  have a: "mainFunction (ex_env ?C) ex_msg ?C = Inr (bulker_step (ex_env ?C) ex_msg ?C)" by blast
  from mainFunction_bulker[OF u(2), of "ex_env ?C" ex_msg]
  have b: "mainFunction (ex_env ?C) ex_msg ?D = Inr (bulker_step (ex_env ?C) ex_msg ?D)" by blast
  show ?thesis
    unfolding a b by (simp add: bulker_step_def example_defs)
qed



text \<open>
  C8. After a lookup whose loader returned nothing, a lookup of the same key, at any
  later time and with any loader, runs the loader again and returns what it returns.
  After a lookup that returned a value, the cache holds an entry with that value, and
  until the entry expires a lookup returns the value with the cache read as its only
  effect, whatever the loader would do. This holds for every cache object that reads
  back what was written, as the three caches of the program do.
\<close>

theorem getCachedOrLoad_nil_not_served:
  assumes wf: "wf_cache c"
  shows
    "(getCachedOrLoad c key loader st = (Inr None, st1) \<longrightarrow>
        (\<forall>n loader'. getCachedOrLoad c key loader' (st1\<lparr>now := n\<rparr>) =
           (case loader' key (snd (cache_get c key (st1\<lparr>now := n\<rparr>))) of
              (Inl e, s) \<Rightarrow> (Inl e, s)
            | (Inr loaded, s) \<Rightarrow> (Inr loaded, cache_set c key loaded s)))) \<and>
     (getCachedOrLoad c key loader st = (Inr (Some v), st1) \<longrightarrow>
        (\<exists>t. rd c st1 key = Some (Some v, t) \<and>
           (\<forall>n loader'. \<not> expired t n \<longrightarrow>
              getCachedOrLoad c key loader' (st1\<lparr>now := n\<rparr>) =
                (Inr (Some v), emit (CacheGet (cache_id c) key) (st1\<lparr>now := n\<rparr>)))))"
proof (intro conjI impI)
  assume run: "getCachedOrLoad c key loader st = (Inr None, st1)"
  from getCachedOrLoad_result_entry[OF wf run]
  obtain t where e: "rd c st1 key = Some (None, t)" by auto
  show "\<forall>n loader'. getCachedOrLoad c key loader' (st1\<lparr>now := n\<rparr>) =
           (case loader' key (snd (cache_get c key (st1\<lparr>now := n\<rparr>))) of
              (Inl e, s) \<Rightarrow> (Inl e, s)
            | (Inr loaded, s) \<Rightarrow> (Inr loaded, cache_set c key loaded s))"
  proof (intro allI)
    fix n loader'
    have "rd c (st1\<lparr>now := n\<rparr>) key = Some (None, t)"
      using wf e by (simp add: wf_cache_def)
    then have "fst (cache_get c key (st1\<lparr>now := n\<rparr>)) = None"
      by (rule cache_get_nil[OF wf])
    then show "getCachedOrLoad c key loader' (st1\<lparr>now := n\<rparr>) =
           (case loader' key (snd (cache_get c key (st1\<lparr>now := n\<rparr>))) of
              (Inl e, s) \<Rightarrow> (Inl e, s)
            | (Inr loaded, s) \<Rightarrow> (Inr loaded, cache_set c key loaded s))"
      by (rule getCachedOrLoad_miss)
  qed
next
  assume run: "getCachedOrLoad c key loader st = (Inr (Some v), st1)"
  from getCachedOrLoad_result_entry[OF wf run]
  obtain t where e: "rd c st1 key = Some (Some v, t)" by auto
  have "\<forall>n loader'. \<not> expired t n \<longrightarrow>
              getCachedOrLoad c key loader' (st1\<lparr>now := n\<rparr>) =
                (Inr (Some v), emit (CacheGet (cache_id c) key) (st1\<lparr>now := n\<rparr>))"
  proof (intro allI impI)
    fix n loader'
    assume ne: "\<not> expired t n"
    have "rd c (st1\<lparr>now := n\<rparr>) key = Some (Some v, t)"
      using wf e by (simp add: wf_cache_def)
    from cache_get_hit[OF wf this] ne
    have "cache_get c key (st1\<lparr>now := n\<rparr>) = (Some v, emit (CacheGet (cache_id c) key) (st1\<lparr>now := n\<rparr>))"
      by simp
    then show "getCachedOrLoad c key loader' (st1\<lparr>now := n\<rparr>) =
                (Inr (Some v), emit (CacheGet (cache_id c) key) (st1\<lparr>now := n\<rparr>))"
      by (simp add: getCachedOrLoad_def)
  qed
  with e show "\<exists>t. rd c st1 key = Some (Some v, t) \<and>
           (\<forall>n loader'. \<not> expired t n \<longrightarrow>
              getCachedOrLoad c key loader' (st1\<lparr>now := n\<rparr>) =
                (Inr (Some v), emit (CacheGet (cache_id c) key) (st1\<lparr>now := n\<rparr>)))"
    by blast
qed

theorem getCachedOrLoad_nil_not_served_witness:
  "fst (getCachedOrLoad connectionsCache ''nosuch'' (loadConnection (ex_env (ex_conn None True ''webhook''))) ex_state)
     = Inr None \<and>
   new_effects ex_state
     (snd (getCachedOrLoad connectionsCache ''nosuch'' (loadConnection (ex_env (ex_conn None True ''webhook'')))
        ((snd (getCachedOrLoad connectionsCache ''nosuch''
                 (loadConnection (ex_env (ex_conn None True ''webhook''))) ex_state))\<lparr>now := 5000\<rparr>)))
     = [CacheGet ConnectionsCache ''nosuch'', GetEnrichedConnection ''nosuch'', CacheSet ConnectionsCache ''nosuch'',
        CacheGet ConnectionsCache ''nosuch'', GetEnrichedConnection ''nosuch'', CacheSet ConnectionsCache ''nosuch''] \<and>
   fst (getCachedOrLoad connectionsCache ''c1'' (loadConnection (ex_env (ex_conn None True ''webhook''))) ex_state)
     = Inr (Some (ex_conn None True ''webhook'')) \<and>
   getCachedOrLoad connectionsCache ''c1'' (\<lambda>key s. (Inl (Error ''not called''), s))
        ((snd (getCachedOrLoad connectionsCache ''c1''
                 (loadConnection (ex_env (ex_conn None True ''webhook''))) ex_state))\<lparr>now := 21000\<rparr>)
     = (Inr (Some (ex_conn None True ''webhook'')),
        emit (CacheGet ConnectionsCache ''c1'')
          ((snd (getCachedOrLoad connectionsCache ''c1''
                 (loadConnection (ex_env (ex_conn None True ''webhook''))) ex_state))\<lparr>now := 21000\<rparr>))"
proof -
  let ?C = "ex_conn None True ''webhook''"
  let ?L = "loadConnection (ex_env ?C)"
  let ?X = "getCachedOrLoad connectionsCache ''nosuch'' ?L ex_state"
  let ?Y = "getCachedOrLoad connectionsCache ''c1'' ?L ex_state"
  note nil = getCachedOrLoad_nil_not_served[OF wf_connectionsCache]
  have x1: "fst ?X = Inr None"
    by (simp add: model_defs example_defs)
  then have x: "?X = (Inr None, snd ?X)"
    by (metis prod.collapse)
  have y1: "fst ?Y = Inr (Some ?C)"
    by (simp add: model_defs example_defs)
  then have y: "?Y = (Inr (Some ?C), snd ?Y)"
    by (metis prod.collapse)
  from nil[of "''nosuch''" ?L ex_state "snd ?X"] x
  have again: "getCachedOrLoad connectionsCache ''nosuch'' ?L ((snd ?X)\<lparr>now := 5000\<rparr>) =
           (case ?L ''nosuch'' (snd (cache_get connectionsCache ''nosuch'' ((snd ?X)\<lparr>now := 5000\<rparr>))) of
              (Inl e, s) \<Rightarrow> (Inl e, s)
            | (Inr loaded, s) \<Rightarrow> (Inr loaded, cache_set connectionsCache ''nosuch'' loaded s))"
    by blast
  have tr: "new_effects ex_state (snd (getCachedOrLoad connectionsCache ''nosuch'' ?L ((snd ?X)\<lparr>now := 5000\<rparr>)))
     = [CacheGet ConnectionsCache ''nosuch'', GetEnrichedConnection ''nosuch'', CacheSet ConnectionsCache ''nosuch'',
        CacheGet ConnectionsCache ''nosuch'', GetEnrichedConnection ''nosuch'', CacheSet ConnectionsCache ''nosuch'']"
    unfolding again by (simp add: model_defs example_defs new_effects_def)
  from nil[of "''c1''" ?L ex_state "snd ?Y" ?C] y
  obtain t where e: "connectionsCache_data (snd ?Y) ''c1'' = Some (Some ?C, t)"
    and served: "\<forall>n loader'. \<not> expired t n \<longrightarrow>
              getCachedOrLoad connectionsCache ''c1'' loader' ((snd ?Y)\<lparr>now := n\<rparr>) =
                (Inr (Some ?C), emit (CacheGet (cache_id connectionsCache) ''c1'') ((snd ?Y)\<lparr>now := n\<rparr>))"
    by (auto simp: connectionsCache_def)
  have "connectionsCache_data (snd ?Y) ''c1'' = Some (Some ?C, 21000)"
    by (simp add: model_defs example_defs)
  with e have "t = 21000" by simp
  then have "\<not> expired t 21000" by (simp add: expired_def)
  with served have "getCachedOrLoad connectionsCache ''c1'' (\<lambda>key s. (Inl (Error ''not called''), s))
        ((snd ?Y)\<lparr>now := 21000\<rparr>)
     = (Inr (Some ?C), emit (CacheGet (cache_id connectionsCache) ''c1'') ((snd ?Y)\<lparr>now := 21000\<rparr>))"
    by blast
  then have hit: "getCachedOrLoad connectionsCache ''c1'' (\<lambda>key s. (Inl (Error ''not called''), s))
        ((snd ?Y)\<lparr>now := 21000\<rparr>)
     = (Inr (Some ?C), emit (CacheGet ConnectionsCache ''c1'') ((snd ?Y)\<lparr>now := 21000\<rparr>))"
    by (simp add: connectionsCache_def)
  from x1 tr y1 hit show ?thesis by blast
qed

text \<open>
  C9. For a connection that does not use the bulker: when the registry has no builtin
  \<open>builtin.destination.\<close> followed by the connection's type, the terminal step cannot
  be built, and a message that decodes and whose connection resolves makes the handler
  fail with the error of line 144, in the state the resolution of the connection left;
  when the registry has the builtin, the terminal step is that builtin with the
  connection's credentials as its options.
\<close>

theorem mainFunction_missing_builtin:
  assumes "\<not> usesBulker conn"
  shows "(getBuiltinFunction env (''builtin.destination.'' @ conn_type conn) = None \<longrightarrow>
            mainFunction env msg conn = Inl (config_error conn) \<and>
            buildChain env msg conn ff st1 = (Inl (config_error conn), st1) \<and>
            (s \<noteq> [] \<and> JSON_parse env s = Inr msg \<and>
             getCachedOrLoad connectionsCache (connectionId msg) (loadConnection env)
               (emit (JsonParse s) st) = (Inr (Some conn), st1) \<longrightarrow>
             rotorMessageHandler env (Some s) ff r st = (Inl (config_error conn), st1))) \<and>
         (\<forall>b. getBuiltinFunction env (''builtin.destination.'' @ conn_type conn) = Some b \<longrightarrow>
            mainFunction env msg conn =
              Inr \<lparr>functionId = ''builtin.destination.'' @ conn_type conn,
                   functionOptions = Opaque (credentials conn)\<rparr>)"
proof -
  have a: "mainFunction env msg conn = Inl (config_error conn)"
    if "getBuiltinFunction env (''builtin.destination.'' @ conn_type conn) = None"
    using assms that by (simp add: mainFunction_def config_error_def)
  have b: "buildChain env msg conn ff st1 = (Inl (config_error conn), st1)"
    if "getBuiltinFunction env (''builtin.destination.'' @ conn_type conn) = None"
    using a[OF that] by (simp add: buildChain_def)
  have c: "rotorMessageHandler env (Some s) ff r st = (Inl (config_error conn), st1)"
    if "getBuiltinFunction env (''builtin.destination.'' @ conn_type conn) = None"
      and "s \<noteq> []" "JSON_parse env s = Inr msg"
      and "getCachedOrLoad connectionsCache (connectionId msg) (loadConnection env)
               (emit (JsonParse s) st) = (Inr (Some conn), st1)"
    using handler_resolved[OF that(2,3,4) b[OF that(1)]] .
  have d: "mainFunction env msg conn =
              Inr \<lparr>functionId = ''builtin.destination.'' @ conn_type conn,
                   functionOptions = Opaque (credentials conn)\<rparr>"
    if "getBuiltinFunction env (''builtin.destination.'' @ conn_type conn) = Some b" for b
    using assms that by (simp add: mainFunction_def)
  from a b c d show ?thesis by blast
qed

theorem mainFunction_missing_builtin_witness:
  "rotorMessageHandler (ex_env (ex_conn None False ''nosuch'')) (Some ''{m1}'') None None ex_state =
     (Inl (Error ''Connection with id c1 has no functions assigned to it's destination type - nosuch''),
      ex_state\<lparr>connectionsCache_data := [''c1'' \<mapsto> (Some (ex_conn None False ''nosuch''), 21000)],
                trace := [JsonParse ''{m1}'', CacheGet ConnectionsCache ''c1'',
                          GetEnrichedConnection ''c1'', CacheSet ConnectionsCache ''c1'']\<rparr>) \<and>
   mainFunction (ex_env (ex_conn None False ''webhook'')) ex_msg (ex_conn None False ''webhook'') =
     Inr \<lparr>functionId = ''builtin.destination.webhook'', functionOptions = Opaque ''{secret}''\<rparr>"
proof -
  let ?C = "ex_conn None False ''nosuch''"
  let ?E = "ex_env ?C"
  let ?W = "ex_conn None False ''webhook''"
  let ?S1 = "ex_state\<lparr>connectionsCache_data := [''c1'' \<mapsto> (Some ?C, 21000)],
                trace := [JsonParse ''{m1}'', CacheGet ConnectionsCache ''c1'',
                          GetEnrichedConnection ''c1'', CacheSet ConnectionsCache ''c1'']\<rparr>"
  have nb: "\<not> usesBulker ?C" "\<not> usesBulker ?W" by (simp_all add: ex_conn_def)
  have none: "getBuiltinFunction ?E (''builtin.destination.'' @ conn_type ?C) = None"
    by (simp add: example_defs)
  have some: "getBuiltinFunction (ex_env ?W) (''builtin.destination.'' @ conn_type ?W)
                = Some (JitsuFunction ''builtin.destination.webhook'')"
    by (simp add: example_defs)
  have parse: "''{m1}'' \<noteq> []" "JSON_parse ?E ''{m1}'' = Inr ex_msg"
    by (simp_all add: ex_env_def)
  have conn: "getCachedOrLoad connectionsCache (connectionId ex_msg) (loadConnection ?E)
                (emit (JsonParse ''{m1}'') ex_state) = (Inr (Some ?C), ?S1)"
    by (simp add: model_defs example_defs)
  from mainFunction_missing_builtin[OF nb(1), of ?E ex_msg None ?S1 "''{m1}''" ex_state None] none parse conn
  have h: "rotorMessageHandler ?E (Some ''{m1}'') None None ex_state = (Inl (config_error ?C), ?S1)"
    by blast
  from mainFunction_missing_builtin[OF nb(2), of "ex_env ?W" ex_msg] some
  have w: "mainFunction (ex_env ?W) ex_msg ?W =
              Inr \<lparr>functionId = ''builtin.destination.'' @ conn_type ?W,
                   functionOptions = Opaque (credentials ?W)\<rparr>"
    by blast
  have ce: "config_error ?C =
     Error ''Connection with id c1 has no functions assigned to it's destination type - nosuch''"
    by (simp add: config_error_def ex_conn_def)
  have wi: "\<lparr>functionId = ''builtin.destination.'' @ conn_type ?W, functionOptions = Opaque (credentials ?W)\<rparr>
     = \<lparr>functionId = ''builtin.destination.webhook'', functionOptions = Opaque ''{secret}''\<rparr>"
    by (simp add: ex_conn_def)
  from h w show ?thesis unfolding ce wi by (rule conjI)
qed

text \<open>
  C10. For an undefined or empty message the handler returns without an error and leaves
  the state as it was: nothing is decoded, looked up, read from or written to a cache,
  or built (the trace is part of the state).
\<close>

theorem rotorMessageHandler_empty_message:
  "rotorMessageHandler env None ff r st = (Inr (), st) \<and>
   rotorMessageHandler env (Some []) ff r st = (Inr (), st)"
  by (simp add: rotorMessageHandler_def)

end
